theory Spec2Isabelle
  imports Main
begin

text \<open>
  The document service of the PDF packet builder (\<open>DocumentService\<close>): the validator of
  uploaded files, the classifier of filenames, the upload with its compensating delete,
  the deletion of a document and the batch export, as functions over an explicit world
  of the blob store, the metadata table and the record of the calls made.
\<close>

section \<open>Strings, as the document service uses them\<close>

text \<open>
  A string is a list of characters and a file's content a list of bytes; both are
  \<^typ>\<open>string\<close> here.  \<open>toLowerCase\<close> lowers the letters \<open>A\<close> to \<open>Z\<close> and leaves every
  other character alone, which is what the classifier's keywords (all of them lower-case
  ASCII) can observe.
\<close>

definition toLowerChar :: "char \<Rightarrow> char" where
  "toLowerChar c =
     (let n = (of_char c :: nat) in if 65 \<le> n \<and> n \<le> 90 then char_of (n + 32) else c)"

definition toLowerCase :: "string \<Rightarrow> string" where
  "toLowerCase s = map toLowerChar s"

definition startsWith :: "string \<Rightarrow> string \<Rightarrow> bool" where
  "startsWith s p = (take (length p) s = p)"

text \<open>\<open>s.includes(sub)\<close>: \<open>sub\<close> occurs in \<open>s\<close> as a contiguous run.\<close>

fun includes_str :: "string \<Rightarrow> string \<Rightarrow> bool" where
  "includes_str [] sub = (sub = [])"
| "includes_str (c # cs) sub = (startsWith (c # cs) sub \<or> includes_str cs sub)"

text \<open>
  \<open>s.split(c)\<close> for a one-character separator: the pieces between the separators, in
  order; never the empty array (\<open>''''.split('/')\<close> is \<open>['''']\<close>).
\<close>

fun js_split :: "char \<Rightarrow> string \<Rightarrow> string list" where
  "js_split c [] = [[]]"
| "js_split c (x # xs) =
     (if x = c then [] # js_split c xs
      else (case js_split c xs of [] \<Rightarrow> [[x]] | p # ps \<Rightarrow> (x # p) # ps))"

text \<open>\<open>a.pop()\<close> yields the last element, \<open>undefined\<close> on the empty array.\<close>

definition js_pop :: "'a list \<Rightarrow> 'a option" where
  "js_pop xs = (if xs = [] then None else Some (last xs))"

text \<open>\<open>a[i]\<close> yields \<open>undefined\<close> out of range.\<close>

definition js_index :: "'a list \<Rightarrow> nat \<Rightarrow> 'a option" where
  "js_index xs i = (if i < length xs then Some (xs ! i) else None)"

text \<open>\<open>v || d\<close> on a possibly absent string: \<open>undefined\<close> and \<open>''''\<close> are falsy.\<close>

definition or_else :: "string option \<Rightarrow> string \<Rightarrow> string" where
  "or_else v d = (case v of None \<Rightarrow> d | Some s \<Rightarrow> if s = [] then d else s)"

text \<open>A string is truthy when it is not empty.\<close>

definition truthy :: "string \<Rightarrow> bool" where
  "truthy s = (s \<noteq> [])"

section \<open>Data model\<close>

datatype DocumentType = TDS | ESR | MSDS | LEED | Installation | Warranty | Acoustic | PartSpec

text \<open>A \<open>DocumentType\<close> is its own name as a string when it is interpolated.\<close>

fun type_string :: "DocumentType \<Rightarrow> string" where
  "type_string TDS = ''TDS''"
| "type_string ESR = ''ESR''"
| "type_string MSDS = ''MSDS''"
| "type_string LEED = ''LEED''"
| "type_string Installation = ''Installation''"
| "type_string Warranty = ''Warranty''"
| "type_string Acoustic = ''Acoustic''"
| "type_string PartSpec = ''PartSpec''"

text \<open>
  The browser's \<open>File\<close>: its name, its declared media type, its declared size, its
  bytes, and whether reading them succeeds (a read of an unreadable file is rejected).
\<close>

record File =
  file_name :: string
  file_type :: string
  file_size :: nat
  file_bytes :: string
  file_readable :: bool

text \<open>
  \<open>Omit<Document, 'id' | 'fileData'>\<close> is the row that \<open>uploadDocument\<close> builds; the
  database adds the id.
\<close>

record new_document =
  doc_name :: string
  description :: string
  filename :: string
  url :: string
  doc_size :: nat
  doc_type :: DocumentType
  required :: bool
  products :: "string list"
  product_type :: string

record document = new_document +
  doc_id :: string

datatype error = Error string

record verdict =
  valid :: bool
  verror :: "string option"

section \<open>Validator\<close>

definition MAX_SIZE :: nat where
  "MAX_SIZE = 50 * 1024 * 1024"

text \<open>\<open>file.slice(0, 5).arrayBuffer()\<close>: at most the first five bytes, or a rejection.\<close>

definition slice_bytes :: "File \<Rightarrow> nat \<Rightarrow> nat \<Rightarrow> string option" where
  "slice_bytes f lo hi =
     (if file_readable f then Some (drop lo (take hi (file_bytes f))) else None)"

definition validatePDF :: "File \<Rightarrow> verdict" where
  "validatePDF f =
     (if file_type f \<noteq> ''application/pdf''
      then \<lparr>valid = False, verror = Some ''File must be a PDF document''\<rparr>
      else if file_size f > MAX_SIZE
      then \<lparr>valid = False, verror = Some ''File size exceeds 50MB limit''\<rparr>
      else if file_size f < 1024
      then \<lparr>valid = False, verror = Some ''File is too small to be a valid PDF''\<rparr>
      else
        (case slice_bytes f 0 5 of
           None \<Rightarrow> \<lparr>valid = False, verror = Some ''Failed to read file''\<rparr>
         | Some signature \<Rightarrow>
             if \<not> startsWith signature ''%PDF''
             then \<lparr>valid = False, verror = Some ''File does not appear to be a valid PDF''\<rparr>
             else \<lparr>valid = True, verror = None\<rparr>))"

section \<open>Classifier\<close>

definition detectDocumentType :: "string \<Rightarrow> DocumentType" where
  "detectDocumentType fname =
     (let lower = toLowerCase fname in
      if includes_str lower ''tds'' \<or> includes_str lower ''technical data'' then TDS
      else if includes_str lower ''esr'' \<or> includes_str lower ''evaluation report'' then ESR
      else if includes_str lower ''msds'' \<or> includes_str lower ''safety data'' then MSDS
      else if includes_str lower ''leed'' then LEED
      else if includes_str lower ''installation'' \<or> includes_str lower ''install''
      then Installation
      else if includes_str lower ''warranty'' then Warranty
      else if includes_str lower ''acoustic'' \<or> includes_str lower ''esl'' then Acoustic
      else if includes_str lower ''spec'' \<or> includes_str lower ''3-part'' then PartSpec
      else TDS)"

text \<open>\<open>filename.replace(/\.pdf$/i, '')\<close>: a final \<open>.pdf\<close>, in any case, is removed.\<close>

definition strip_pdf :: "string \<Rightarrow> string" where
  "strip_pdf s =
     (let n = length s - 4 in
      if 4 \<le> length s \<and> toLowerCase (drop n s) = ''.pdf'' then take n s else s)"

fun typeMap :: "DocumentType \<Rightarrow> string" where
  "typeMap TDS = ''Technical Data Sheet''"
| "typeMap ESR = ''Evaluation Report''"
| "typeMap MSDS = ''Material Safety Data Sheet''"
| "typeMap LEED = ''LEED Credit Guide''"
| "typeMap Installation = ''Installation Guide''"
| "typeMap Warranty = ''Limited Warranty''"
| "typeMap Acoustic = ''Acoustical Performance''"
| "typeMap PartSpec = ''3-Part Specifications''"

definition extractDocumentName :: "string \<Rightarrow> DocumentType \<Rightarrow> string" where
  "extractDocumentName fname t = (let name = strip_pdf fname in or_else (Some (typeMap t)) name)"

section \<open>The stores and the network\<close>

text \<open>
  Every call the service makes on a store, on the network or on the progress observer is
  recorded, in order, so that "no store is touched" and "a delete is issued" are
  statements about the record.
\<close>

datatype call =
    StorageUpload string
  | StorageGetPublicUrl string
  | StorageRemove "string list"
  | DbSelectAll
  | DbSelectById string
  | DbInsert new_document
  | DbDelete string
  | Fetch string
  | Progress nat

record world =
  blobs :: "string \<rightharpoonup> string"
  documents :: "document list"
  calls :: "call list"

datatype fetch_result = FetchRejected string | Response bool string

text \<open>
  What the surroundings decide during one operation of the service: the clock and the
  random number behind the storage key, for each call of the client the \<open>error\<close> it
  replies with (\<open>None\<close> when the call succeeds), the public locator of a key, the id the
  database gives a new row, what a \<open>fetch\<close> of a locator yields, and the data URL the
  \<open>FileReader\<close> makes of a body (\<open>None\<close> when it fires \<open>onerror\<close>).
\<close>

record env =
  date_now :: string
  random_part :: string
  upload_error :: "string option"
  public_url :: "string \<Rightarrow> string option"
  insert_error :: "string option"
  insert_id :: string
  select_error :: "string option"
  delete_error :: "string option"
  remove_error :: "string option"
  fetch :: "string \<Rightarrow> fetch_result"
  readAsDataURL :: "string \<Rightarrow> string option"

definition record_call :: "call \<Rightarrow> world \<Rightarrow> world" where
  "record_call c w = w\<lparr>calls := calls w @ [c]\<rparr>"

text \<open>
  Modelled from the spec: the BlobStore and MetadataStore of section 4.4, which the
  service reaches through the imported \<open>supabase\<close> client (\<open>@/lib/supabaseClient\<close>, not
  part of the sources).  Each call replies with an object whose \<open>error\<close> field reports a
  failure, and a failed call changes nothing.  \<open>put\<close> binds the key to the bytes, \<open>remove\<close>
  unbinds the keys, \<open>insert\<close> adds the row under the id the database assigns (ids are the
  primary key, so an id already in the table is refused) and returns the stored row,
  \<open>delete\<close> removes the rows with the id, \<open>maybeSingle\<close> yields no row, the one row, or an
  error when several match, and the table is kept newest first, the order
  \<open>created_at\<close> descending.
\<close>

definition storage_upload :: "env \<Rightarrow> string \<Rightarrow> File \<Rightarrow> world \<Rightarrow> string option \<times> world" where
  "storage_upload e key f w =
     (let w1 = record_call (StorageUpload key) w in
      case upload_error e of
        Some m \<Rightarrow> (Some m, w1)
      | None \<Rightarrow> (None, w1\<lparr>blobs := (blobs w1)(key \<mapsto> file_bytes f)\<rparr>))"

definition storage_getPublicUrl :: "env \<Rightarrow> string \<Rightarrow> world \<Rightarrow> string option \<times> world" where
  "storage_getPublicUrl e key w = (public_url e key, record_call (StorageGetPublicUrl key) w)"

definition storage_remove :: "env \<Rightarrow> string list \<Rightarrow> world \<Rightarrow> string option \<times> world" where
  "storage_remove e keys w =
     (let w1 = record_call (StorageRemove keys) w in
      case remove_error e of
        Some m \<Rightarrow> (Some m, w1)
      | None \<Rightarrow> (None, w1\<lparr>blobs := (\<lambda>k. if k \<in> set keys then None else blobs w1 k)\<rparr>))"

definition with_id :: "new_document \<Rightarrow> string \<Rightarrow> document" where
  "with_id r i =
     \<lparr>doc_name = doc_name r, description = description r, filename = filename r,
      url = url r, doc_size = doc_size r, doc_type = doc_type r, required = required r,
      products = products r, product_type = product_type r, doc_id = i\<rparr>"

definition db_insert :: "env \<Rightarrow> new_document \<Rightarrow> world \<Rightarrow> (string + document) \<times> world" where
  "db_insert e r w =
     (let w1 = record_call (DbInsert r) w in
      case insert_error e of
        Some m \<Rightarrow> (Inl m, w1)
      | None \<Rightarrow>
          if insert_id e \<in> set (map doc_id (documents w1))
          then (Inl ''duplicate key value violates unique constraint'', w1)
          else (Inr (with_id r (insert_id e)),
                w1\<lparr>documents := with_id r (insert_id e) # documents w1\<rparr>))"

definition db_select_all :: "env \<Rightarrow> world \<Rightarrow> (string + document list) \<times> world" where
  "db_select_all e w =
     (let w1 = record_call DbSelectAll w in
      case select_error e of
        Some m \<Rightarrow> (Inl m, w1)
      | None \<Rightarrow> (Inr (documents w1), w1))"

definition db_select_by_id :: "env \<Rightarrow> string \<Rightarrow> world \<Rightarrow> (string + document option) \<times> world" where
  "db_select_by_id e i w =
     (let w1 = record_call (DbSelectById i) w in
      case select_error e of
        Some m \<Rightarrow> (Inl m, w1)
      | None \<Rightarrow>
          (case filter (\<lambda>d. doc_id d = i) (documents w1) of
             [] \<Rightarrow> (Inr None, w1)
           | [d] \<Rightarrow> (Inr (Some d), w1)
           | _ \<Rightarrow> (Inl ''JSON object requested, multiple (or no) rows returned'', w1)))"

definition db_delete :: "env \<Rightarrow> string \<Rightarrow> world \<Rightarrow> string option \<times> world" where
  "db_delete e i w =
     (let w1 = record_call (DbDelete i) w in
      case delete_error e of
        Some m \<Rightarrow> (Some m, w1)
      | None \<Rightarrow> (None, w1\<lparr>documents := filter (\<lambda>d. doc_id d \<noteq> i) (documents w1)\<rparr>))"

text \<open>
  The optional observer: with none supplied, a report is a no-op; one that is supplied
  is taken to return normally.
\<close>

definition report :: "bool \<Rightarrow> nat \<Rightarrow> world \<Rightarrow> world" where
  "report onProgress n w = (if onProgress then record_call (Progress n) w else w)"

section \<open>The document service\<close>

text \<open>
  An operation takes the world and returns its outcome with the world it leaves: \<open>Inl\<close>
  the \<open>Error\<close> it throws, \<open>Inr\<close> the value it resolves to.  The \<open>catch\<close> blocks around the
  bodies log and throw the same error again, so they do not show.  The client reports a
  failure in the \<open>error\<close> field of its reply and the service throws on the replies it
  inspects; the reply of \<open>remove\<close> is inspected nowhere, so a failed \<open>remove\<close> passes
  unnoticed, after a failed insert as in \<open>deleteDocument\<close>, whose inner \<open>try\<close> then has
  nothing to catch.
\<close>

definition getAllDocuments :: "env \<Rightarrow> world \<Rightarrow> (error + document list) \<times> world" where
  "getAllDocuments e w =
     (case db_select_all e w of
        (Inl m, w1) \<Rightarrow> (Inl (Error m), w1)
      | (Inr data, w1) \<Rightarrow> (Inr data, w1))"

definition getDocument :: "env \<Rightarrow> string \<Rightarrow> world \<Rightarrow> (error + document option) \<times> world" where
  "getDocument e i w =
     (case db_select_by_id e i w of
        (Inl m, w1) \<Rightarrow> (Inl (Error m), w1)
      | (Inr data, w1) \<Rightarrow> (Inr data, w1))"

definition storage_key :: "env \<Rightarrow> File \<Rightarrow> string" where
  "storage_key e f = date_now e @ ''-'' @ random_part e @ ''-'' @ file_name f"

definition build_document :: "File \<Rightarrow> string \<Rightarrow> string \<Rightarrow> new_document" where
  "build_document f productType fileUrl =
     (let t = detectDocumentType (file_name f) in
      \<lparr>doc_name = extractDocumentName (file_name f) t,
       description = type_string t @ '' Document'',
       filename = file_name f,
       url = fileUrl,
       doc_size = file_size f,
       doc_type = t,
       required = False,
       products =
         (if productType = ''structural-floor'' then [''3/4-in (20mm)'']
          else [''1/2-in (13mm)'', ''5/8-in (16mm)'']),
       product_type = productType\<rparr>)"

definition uploadDocument ::
  "env \<Rightarrow> File \<Rightarrow> string \<Rightarrow> bool \<Rightarrow> world \<Rightarrow> (error + document) \<times> world" where
  "uploadDocument e f productType onProgress w =
     (let validation = validatePDF f in
      if \<not> valid validation
      then (Inl (Error (or_else (verror validation) ''Invalid PDF file'')), w)
      else
        (let fileName = storage_key e f in
         case storage_upload e fileName f w of
           (Some m, w1) \<Rightarrow> (Inl (Error m), w1)
         | (None, w1) \<Rightarrow>
             (let w2 = report onProgress 50 w1 in
              case storage_getPublicUrl e fileName w2 of
                (publicUrl, w3) \<Rightarrow>
                  (let fileUrl = or_else publicUrl [] in
                   case db_insert e (build_document f productType fileUrl) w3 of
                     (Inl m, w4) \<Rightarrow>
                       (case storage_remove e [fileName] w4 of
                          (_, w5) \<Rightarrow> (Inl (Error m), w5))
                   | (Inr insertedDoc, w4) \<Rightarrow>
                       (Inr insertedDoc, report onProgress 100 w4)))))"

definition deleteDocument :: "env \<Rightarrow> string \<Rightarrow> world \<Rightarrow> (error + unit) \<times> world" where
  "deleteDocument e i w =
     (case getDocument e i w of
        (Inl err, w1) \<Rightarrow> (Inl err, w1)
      | (Inr None, w1) \<Rightarrow> (Inl (Error ''Document not found''), w1)
      | (Inr (Some doc), w1) \<Rightarrow>
          (case db_delete e i w1 of
             (Some m, w2) \<Rightarrow> (Inl (Error m), w2)
           | (None, w2) \<Rightarrow>
               if truthy (url doc) then
                 (case js_pop (js_split (CHR ''/'') (url doc)) of
                    None \<Rightarrow> (Inr (), w2)
                  | Some fileName \<Rightarrow>
                      if truthy fileName
                      then (case storage_remove e [fileName] w2 of (_, w3) \<Rightarrow> (Inr (), w3))
                      else (Inr (), w2))
               else (Inr (), w2)))"

text \<open>
  The export loop.  A \<open>fetch\<close> that is rejected (the network fails, or the body does not
  arrive) and a \<open>FileReader\<close> that fires \<open>onerror\<close> end in the \<open>catch\<close> of the item, which
  logs and goes on; a response that is not \<open>ok\<close> is passed over; otherwise the item is
  pushed with the part of the data URL between its first and second comma.
\<close>

fun export_loop ::
  "env \<Rightarrow> document list \<Rightarrow> (document \<times> string option) list \<Rightarrow> world \<Rightarrow>
     (document \<times> string option) list \<times> world" where
  "export_loop e [] results w = (results, w)"
| "export_loop e (doc # ds) results w =
     (if truthy (url doc) then
        (let w1 = record_call (Fetch (url doc)) w in
         case fetch e (url doc) of
           FetchRejected m \<Rightarrow> export_loop e ds results w1
         | Response ok body \<Rightarrow>
             if ok then
               (case readAsDataURL e body of
                  None \<Rightarrow> export_loop e ds results w1
                | Some base64 \<Rightarrow>
                    export_loop e ds
                      (results @ [(doc, js_index (js_split (CHR '','') base64) 1)]) w1)
             else export_loop e ds results w1)
      else export_loop e ds results w)"

definition getAllDocumentsWithData ::
  "env \<Rightarrow> world \<Rightarrow> (error + (document \<times> string option) list) \<times> world" where
  "getAllDocumentsWithData e w =
     (case getAllDocuments e w of
        (Inl err, w1) \<Rightarrow> (Inl err, w1)
      | (Inr docs, w1) \<Rightarrow>
          (case export_loop e docs [] w1 of (results, w2) \<Rightarrow> (Inr results, w2)))"

section \<open>The words of the specification\<close>

text \<open>
  The classifier as the specification words it: a table of keyword groups in precedence
  order, the first group with a keyword that occurs in the lower-cased name decides, and
  \<open>TDS\<close> is the default.
\<close>

definition classification_rules :: "(string list \<times> DocumentType) list" where
  "classification_rules =
     [([''tds'', ''technical data''], TDS),
      ([''esr'', ''evaluation report''], ESR),
      ([''msds'', ''safety data''], MSDS),
      ([''leed''], LEED),
      ([''installation'', ''install''], Installation),
      ([''warranty''], Warranty),
      ([''acoustic'', ''esl''], Acoustic),
      ([''spec'', ''3-part''], PartSpec)]"

fun first_match :: "string \<Rightarrow> (string list \<times> DocumentType) list \<Rightarrow> DocumentType" where
  "first_match s [] = TDS"
| "first_match s ((keys, t) # rules) =
     (if list_ex (includes_str s) keys then t else first_match s rules)"

definition classify :: "string \<Rightarrow> DocumentType" where
  "classify fname = first_match (toLowerCase fname) classification_rules"

text \<open>The part of a string after its last \<open>c\<close>; the whole string when it has none.\<close>

definition after_last :: "char \<Rightarrow> string \<Rightarrow> string" where
  "after_last c s = rev (takeWhile (\<lambda>x. x \<noteq> c) (rev s))"

text \<open>
  An item of the export fails when the fetch of its locator is rejected, when the
  response is not \<open>ok\<close>, or when the reader cannot make a data URL of the body; the
  payload of an item that does not fail is the part of the data URL between its first
  and second comma.
\<close>

definition item_fails :: "env \<Rightarrow> document \<Rightarrow> bool" where
  "item_fails e d =
     (case fetch e (url d) of
        FetchRejected m \<Rightarrow> True
      | Response ok body \<Rightarrow> (if ok then readAsDataURL e body = None else True))"

definition payload :: "env \<Rightarrow> document \<Rightarrow> string option" where
  "payload e d =
     (case fetch e (url d) of
        FetchRejected m \<Rightarrow> None
      | Response ok body \<Rightarrow>
          (case readAsDataURL e body of
             None \<Rightarrow> None
           | Some base64 \<Rightarrow> js_index (js_split (CHR '','') base64) 1))"

section \<open>Sample inputs\<close>

text \<open>
  Concrete files, surroundings and worlds at which the theorems below are instantiated:
  a well-formed 2 KB PDF, files that break one rule each, surroundings in which every
  call succeeds and variations in which one kind of call fails, and worlds holding the
  record that the upload of the 2 KB PDF leaves.
\<close>

definition sample_pdf :: File where
  "sample_pdf =
     \<lparr>file_name = ''XYZ-TDS-2023.pdf'', file_type = ''application/pdf'', file_size = 2048,
      file_bytes = ''%PDF-1.4'' @ replicate 2040 (CHR ''x''), file_readable = True\<rparr>"

definition text_file :: File where
  "text_file =
     \<lparr>file_name = ''notes.txt'', file_type = ''text/plain'', file_size = 11,
      file_bytes = ''hello world'', file_readable = True\<rparr>"

definition empty_world :: world where
  "empty_world = \<lparr>blobs = Map.empty, documents = [], calls = []\<rparr>"

text \<open>Surroundings in which every call succeeds.\<close>

definition calm :: env where
  "calm =
     \<lparr>date_now = ''1700000000000'', random_part = ''k3j9x1q0z'', upload_error = None,
      public_url = (\<lambda>key. Some (''https://cdn.example/documents/'' @ key)),
      insert_error = None, insert_id = ''doc-1'', select_error = None,
      delete_error = None, remove_error = None,
      fetch = (\<lambda>u. Response True ''%PDF-1.4''),
      readAsDataURL = (\<lambda>b. Some ''data:application/pdf;base64,JVBERi0xLjQ='')\<rparr>"

definition boundary_pdf :: File where
  "boundary_pdf =
     \<lparr>file_name = ''one-kilobyte.pdf'', file_type = ''application/pdf'', file_size = 1024,
      file_bytes = ''%PDF-1.4'' @ replicate 1016 (CHR ''x''), file_readable = True\<rparr>"

definition tiny_pdf :: File where
  "tiny_pdf =
     \<lparr>file_name = ''tiny.pdf'', file_type = ''application/pdf'', file_size = 8,
      file_bytes = ''%PDF-1.4'', file_readable = True\<rparr>"

definition huge_pdf :: File where
  "huge_pdf =
     \<lparr>file_name = ''huge.pdf'', file_type = ''application/pdf'', file_size = 52428801,
      file_bytes = ''%PDF-1.4'' @ replicate 52428793 (CHR ''x''), file_readable = True\<rparr>"

definition unsigned_pdf :: File where
  "unsigned_pdf =
     \<lparr>file_name = ''picture.pdf'', file_type = ''application/pdf'', file_size = 2048,
      file_bytes = ''GIF89a'' @ replicate 2042 (CHR ''x''), file_readable = True\<rparr>"

definition unreadable_pdf :: File where
  "unreadable_pdf =
     \<lparr>file_name = ''gone.pdf'', file_type = ''application/pdf'', file_size = 2048,
      file_bytes = ''%PDF-1.4'' @ replicate 2040 (CHR ''x''), file_readable = False\<rparr>"

definition no_locator :: env where
  "no_locator = calm\<lparr>public_url := (\<lambda>key. None)\<rparr>"

definition unlocated_doc :: document where
  "unlocated_doc =
     \<lparr>doc_name = ''Technical Data Sheet'', description = ''TDS Document'',
      filename = ''XYZ-TDS-2023.pdf'', url = [], doc_size = 2048, doc_type = TDS,
      required = False, products = [''3/4-in (20mm)''], product_type = ''structural-floor'',
      doc_id = ''doc-1''\<rparr>"

definition stored_doc :: document where
  "stored_doc =
     \<lparr>doc_name = ''Technical Data Sheet'', description = ''TDS Document'',
      filename = ''XYZ-TDS-2023.pdf'',
      url = ''https://cdn.example/documents/1700000000000-k3j9x1q0z-XYZ-TDS-2023.pdf'',
      doc_size = 2048, doc_type = TDS,
      required = False, products = [''3/4-in (20mm)''], product_type = ''structural-floor'',
      doc_id = ''doc-1''\<rparr>"

definition failing_stores :: env where
  "failing_stores =
     calm\<lparr>insert_error := Some ''permission denied for table documents'',
          remove_error := Some ''storage unavailable''\<rparr>"

definition stocked_world :: world where
  "stocked_world =
     \<lparr>blobs = [''1700000000000-k3j9x1q0z-XYZ-TDS-2023.pdf'' \<mapsto> file_bytes sample_pdf],
      documents = [stored_doc],
      calls =
        [StorageUpload ''1700000000000-k3j9x1q0z-XYZ-TDS-2023.pdf'',
         Progress 50,
         StorageGetPublicUrl ''1700000000000-k3j9x1q0z-XYZ-TDS-2023.pdf'',
         DbInsert (build_document sample_pdf ''structural-floor''
           ''https://cdn.example/documents/1700000000000-k3j9x1q0z-XYZ-TDS-2023.pdf''),
         Progress 100]\<rparr>"

definition folder_doc :: document where
  "folder_doc = stored_doc\<lparr>url := ''https://cdn.example/documents/'', doc_id := ''doc-2''\<rparr>"

definition draft_doc :: document where
  "draft_doc =
     \<lparr>doc_name = ''Installation Guide'', description = ''Installation Document'',
      filename = ''install-guide.pdf'', url = [], doc_size = 4096, doc_type = Installation,
      required = False, products = [''1/2-in (13mm)'', ''5/8-in (16mm)''],
      product_type = ''underlayment'', doc_id = ''doc-0''\<rparr>"

definition mixed_world :: world where
  "mixed_world = \<lparr>blobs = Map.empty, documents = [draft_doc, stored_doc], calls = []\<rparr>"

definition offline :: env where
  "offline = calm\<lparr>fetch := (\<lambda>u. FetchRejected ''Failed to fetch'')\<rparr>"

definition folder_world :: world where
  "folder_world = \<lparr>blobs = Map.empty, documents = [folder_doc], calls = []\<rparr>"

definition flaky :: env where
  "flaky = calm\<lparr>fetch := (\<lambda>u. if u = ''https://cdn.example/documents/'' then Response False []
                               else Response True ''%PDF-1.4'')\<rparr>"

definition pair_world :: world where
  "pair_world = \<lparr>blobs = Map.empty, documents = [folder_doc, stored_doc], calls = []\<rparr>"

section \<open>Facts about the string functions\<close>

lemma startsWith_iff: "startsWith s p \<longleftrightarrow> (\<exists>q. s = p @ q)"
  unfolding startsWith_def
  by (metis append_eq_conv_conj)

lemma includes_str_iff: "includes_str s sub \<longleftrightarrow> (\<exists>p q. s = p @ sub @ q)"
proof (induction s)
  case Nil
  then show ?case by auto
next
  case (Cons c cs)
  show ?case
  proof
    assume "includes_str (c # cs) sub"
    then consider "startsWith (c # cs) sub" | "includes_str cs sub" by auto
    then show "\<exists>p q. c # cs = p @ sub @ q"
    proof cases
      case 1
      then obtain q where "c # cs = sub @ q" by (auto simp: startsWith_iff)
      then have "c # cs = [] @ sub @ q" by simp
      then show ?thesis by blast
    next
      case 2
      with Cons.IH obtain p q where "cs = p @ sub @ q" by blast
      then have "c # cs = (c # p) @ sub @ q" by simp
      then show ?thesis by blast
    qed
  next
    assume "\<exists>p q. c # cs = p @ sub @ q"
    then obtain p q where pq: "c # cs = p @ sub @ q" by blast
    show "includes_str (c # cs) sub"
    proof (cases p)
      case Nil
      with pq have "startsWith (c # cs) sub" by (auto simp: startsWith_iff)
      then show ?thesis by simp
    next
      case (Cons a p')
      with pq have "cs = p' @ sub @ q" by simp
      with Cons.IH have "includes_str cs sub" by blast
      then show ?thesis by simp
    qed
  qed
qed

lemma js_split_nonempty: "js_split c s \<noteq> []"
  by (induction s) (auto split: list.splits)

lemma after_last_Cons:
  "after_last c (x # xs) =
     (if c \<in> set xs then after_last c xs else if x = c then xs else x # xs)"
proof (cases "c \<in> set xs")
  case True
  then have "c \<in> set (rev xs)" by simp
  then have "takeWhile (\<lambda>y. y \<noteq> c) (rev xs @ [x]) = takeWhile (\<lambda>y. y \<noteq> c) (rev xs)"
    by (rule takeWhile_append1) simp
  then have "after_last c (x # xs) = after_last c xs"
    by (simp only: after_last_def rev.simps)
  with True show ?thesis by simp
next
  case False
  then have all: "\<forall>y\<in>set (rev xs). y \<noteq> c" by auto
  from all have "takeWhile (\<lambda>y. y \<noteq> c) (rev (x # xs)) = rev xs @ takeWhile (\<lambda>y. y \<noteq> c) [x]"
    by (simp add: takeWhile_append)
  then have "after_last c (x # xs) = rev (takeWhile (\<lambda>y. y \<noteq> c) [x]) @ xs"
    by (simp only: after_last_def rev_append rev_rev_ident)
  with False show ?thesis by simp
qed

lemma js_split_single: "c \<notin> set s \<Longrightarrow> js_split c s = [s]"
  by (induction s) auto

lemma js_split_tl: "c \<in> set s \<Longrightarrow> tl (js_split c s) \<noteq> []"
  by (induction s) (auto simp: js_split_nonempty split: list.splits)

lemma last_js_split: "last (js_split c s) = after_last c s"
proof (induction s)
  case Nil
  then show ?case by (simp add: after_last_def)
next
  case (Cons x xs)
  show ?case
  proof (cases "c \<in> set xs")
    case True
    then have tl: "tl (js_split c xs) \<noteq> []" by (rule js_split_tl)
    then have "last (js_split c xs) = last (tl (js_split c xs))"
      by (cases "js_split c xs") auto
    with tl have "last (js_split c (x # xs)) = last (js_split c xs)"
      by (auto simp: js_split_nonempty split: list.splits)
    with True Cons.IH show ?thesis by (simp add: after_last_Cons)
  next
    case False
    then have "js_split c xs = [xs]" by (rule js_split_single)
    with False show ?thesis by (simp add: after_last_Cons)
  qed
qed

lemma js_pop_split: "js_pop (js_split c s) = Some (after_last c s)"
  by (simp add: js_pop_def js_split_nonempty last_js_split)

lemma after_last_no_sep: "c \<notin> set (after_last c s)"
  by (auto simp: after_last_def dest: set_takeWhileD)

lemma after_last_decomp: "c \<in> set s \<Longrightarrow> \<exists>p. s = p @ c # after_last c s"
proof -
  assume "c \<in> set s"
  then have "c \<in> set (rev s)" by simp
  then have "dropWhile (\<lambda>x. x \<noteq> c) (rev s) \<noteq> []" by auto
  then obtain r where r: "dropWhile (\<lambda>x. x \<noteq> c) (rev s) = c # r"
    using hd_dropWhile [of "\<lambda>x. x \<noteq> c" "rev s"]
    by (cases "dropWhile (\<lambda>x. x \<noteq> c) (rev s)") auto
  have "rev s = takeWhile (\<lambda>x. x \<noteq> c) (rev s) @ dropWhile (\<lambda>x. x \<noteq> c) (rev s)" by simp
  then have "rev (rev s) = rev (takeWhile (\<lambda>x. x \<noteq> c) (rev s) @ dropWhile (\<lambda>x. x \<noteq> c) (rev s))"
    by simp
  then have "s = rev (dropWhile (\<lambda>x. x \<noteq> c) (rev s)) @ rev (takeWhile (\<lambda>x. x \<noteq> c) (rev s))"
    by (simp only: rev_rev_ident rev_append)
  with r show ?thesis by (auto simp: after_last_def)
qed

lemma after_last_whole: "c \<notin> set s \<Longrightarrow> after_last c s = s"
proof -
  assume "c \<notin> set s"
  then have "takeWhile (\<lambda>x. x \<noteq> c) (rev s) = rev s" by auto
  then show ?thesis by (simp only: after_last_def rev_rev_ident)
qed

section \<open>Validation failures leave the stores alone\<close>

lemma validatePDF_invalid_reason:
  "\<not> valid (validatePDF f) \<Longrightarrow> \<exists>r. verror (validatePDF f) = Some r \<and> r \<noteq> []"
  by (auto simp: validatePDF_def split: if_splits option.splits)

lemma uploadDocument_invalid:
  "\<not> valid (validatePDF f) \<Longrightarrow>
   uploadDocument e f productType onProgress w
     = (Inl (Error (or_else (verror (validatePDF f)) ''Invalid PDF file'')), w)"
  by (simp add: uploadDocument_def Let_def)

text \<open>
  C9.  When validation returns an invalid verdict, \<open>uploadDocument\<close> throws at once an
  error that carries the verdict's reason, and the world it leaves is the world it was
  given: the blob store, the metadata table and the record of calls are unchanged, so
  neither store was touched.
\<close>

theorem upload_invalid_touches_nothing:
  assumes "\<not> valid (validatePDF f)"
  shows "\<exists>reason. verror (validatePDF f) = Some reason
           \<and> uploadDocument e f productType onProgress w = (Inl (Error reason), w)"
proof -
  from assms obtain r where r: "verror (validatePDF f) = Some r" "r \<noteq> []"
    using validatePDF_invalid_reason by blast
  then have "or_else (verror (validatePDF f)) ''Invalid PDF file'' = r"
    by (simp add: or_else_def)
  with assms r show ?thesis
    by (simp add: uploadDocument_def Let_def)
qed

theorem upload_invalid_touches_nothing_witness:
  "\<not> valid (validatePDF text_file)
   \<and> uploadDocument calm text_file ''structural-floor'' True empty_world
       = (Inl (Error ''File must be a PDF document''), empty_world)"
proof -
  have bad: "\<not> valid (validatePDF text_file)"
    by (simp add: validatePDF_def text_file_def)
  have reason: "verror (validatePDF text_file) = Some ''File must be a PDF document''"
    by (simp add: validatePDF_def text_file_def)
  from upload_invalid_touches_nothing [OF bad, of calm "''structural-floor''" True empty_world]
    reason bad
  show ?thesis by auto
qed

section \<open>The validator's rules\<close>

lemma startsWith_take5: "startsWith (take 5 bs) ''%PDF'' = startsWith bs ''%PDF''"
  by (simp add: startsWith_def)

lemma validatePDF_cases:
  "validatePDF f =
     (if file_type f \<noteq> ''application/pdf''
      then \<lparr>valid = False, verror = Some ''File must be a PDF document''\<rparr>
      else if MAX_SIZE < file_size f
      then \<lparr>valid = False, verror = Some ''File size exceeds 50MB limit''\<rparr>
      else if file_size f < 1024
      then \<lparr>valid = False, verror = Some ''File is too small to be a valid PDF''\<rparr>
      else if \<not> file_readable f
      then \<lparr>valid = False, verror = Some ''Failed to read file''\<rparr>
      else if \<not> startsWith (file_bytes f) ''%PDF''
      then \<lparr>valid = False, verror = Some ''File does not appear to be a valid PDF''\<rparr>
      else \<lparr>valid = True, verror = None\<rparr>)"
  by (simp add: validatePDF_def slice_bytes_def startsWith_take5)

text \<open>
  C2, as the claim states it, fails at the boundary: a PDF of exactly 1024 bytes has a
  size that is not above 1024, and the validator accepts it.
\<close>

theorem boundary_size_accepted:
  "file_size boundary_pdf \<le> 1024 \<and> length (file_bytes boundary_pdf) = file_size boundary_pdf
   \<and> validatePDF boundary_pdf = \<lparr>valid = True, verror = None\<rparr>"
  by (simp add: validatePDF_cases boundary_pdf_def MAX_SIZE_def startsWith_def)

text \<open>
  C2, amended.  Validation fails when the declared size is below 1024 bytes or above
  50 * 1024 * 1024 bytes, and then \<open>uploadDocument\<close> throws and leaves the world as it
  was, so no store call occurs.  For a file of the PDF media type the reason is
  "File size exceeds 50MB limit" above the maximum and "File is too small to be a valid
  PDF" below 1024.  Among the files that pass the other rules, the accepted sizes are
  exactly those from 1024 up to 50 * 1024 * 1024, both included.
\<close>

theorem size_rules:
  "(file_size f < 1024 \<or> MAX_SIZE < file_size f \<longrightarrow>
      \<not> valid (validatePDF f)
      \<and> (\<exists>reason. uploadDocument e f productType onProgress w = (Inl (Error reason), w)))
   \<and> (file_type f = ''application/pdf'' \<and> MAX_SIZE < file_size f \<longrightarrow>
        verror (validatePDF f) = Some ''File size exceeds 50MB limit'')
   \<and> (file_type f = ''application/pdf'' \<and> file_size f < 1024 \<longrightarrow>
        verror (validatePDF f) = Some ''File is too small to be a valid PDF'')
   \<and> (file_type f = ''application/pdf'' \<and> file_readable f \<and> startsWith (file_bytes f) ''%PDF'' \<longrightarrow>
        (valid (validatePDF f) \<longleftrightarrow> 1024 \<le> file_size f \<and> file_size f \<le> MAX_SIZE))"
proof (intro conjI impI)
  assume out: "file_size f < 1024 \<or> MAX_SIZE < file_size f"
  then show bad: "\<not> valid (validatePDF f)"
    by (auto simp: validatePDF_cases)
  from uploadDocument_invalid [OF bad]
  show "\<exists>reason. uploadDocument e f productType onProgress w = (Inl (Error reason), w)"
    by blast
next
  assume "file_type f = ''application/pdf'' \<and> MAX_SIZE < file_size f"
  then show "verror (validatePDF f) = Some ''File size exceeds 50MB limit''"
    by (simp add: validatePDF_cases)
next
  assume "file_type f = ''application/pdf'' \<and> file_size f < 1024"
  then show "verror (validatePDF f) = Some ''File is too small to be a valid PDF''"
    by (simp add: validatePDF_cases MAX_SIZE_def)
next
  assume "file_type f = ''application/pdf'' \<and> file_readable f \<and> startsWith (file_bytes f) ''%PDF''"
  then show "valid (validatePDF f) \<longleftrightarrow> 1024 \<le> file_size f \<and> file_size f \<le> MAX_SIZE"
    by (auto simp: validatePDF_cases)
qed

theorem size_rules_witness:
  "file_size tiny_pdf < 1024
   \<and> uploadDocument calm tiny_pdf ''structural-floor'' False empty_world
       = (Inl (Error ''File is too small to be a valid PDF''), empty_world)
   \<and> MAX_SIZE < file_size huge_pdf
   \<and> uploadDocument calm huge_pdf ''structural-floor'' False empty_world
       = (Inl (Error ''File size exceeds 50MB limit''), empty_world)
   \<and> valid (validatePDF sample_pdf) \<and> valid (validatePDF boundary_pdf)"
proof -
  have t: "file_type tiny_pdf = ''application/pdf''" "file_size tiny_pdf < 1024"
    by (simp_all add: tiny_pdf_def)
  have h: "file_type huge_pdf = ''application/pdf''" "MAX_SIZE < file_size huge_pdf"
    by (simp_all add: huge_pdf_def MAX_SIZE_def)
  have s: "file_type sample_pdf = ''application/pdf''" "file_readable sample_pdf"
    "startsWith (file_bytes sample_pdf) ''%PDF''"
    "1024 \<le> file_size sample_pdf \<and> file_size sample_pdf \<le> MAX_SIZE"
    by (simp_all add: sample_pdf_def MAX_SIZE_def startsWith_def)
  have b: "file_type boundary_pdf = ''application/pdf''" "file_readable boundary_pdf"
    "startsWith (file_bytes boundary_pdf) ''%PDF''"
    "1024 \<le> file_size boundary_pdf \<and> file_size boundary_pdf \<le> MAX_SIZE"
    by (simp_all add: boundary_pdf_def MAX_SIZE_def startsWith_def)
  note T = size_rules [of tiny_pdf calm "''structural-floor''" False empty_world]
  note H = size_rules [of huge_pdf calm "''structural-floor''" False empty_world]
  note S = size_rules [of sample_pdf calm "''structural-floor''" False empty_world]
  note B = size_rules [of boundary_pdf calm "''structural-floor''" False empty_world]
  from T t obtain r1 where r1: "uploadDocument calm tiny_pdf ''structural-floor'' False empty_world
       = (Inl (Error r1), empty_world)" by blast
  from T t have v1: "verror (validatePDF tiny_pdf) = Some ''File is too small to be a valid PDF''" by blast
  from H h obtain r2 where r2: "uploadDocument calm huge_pdf ''structural-floor'' False empty_world
       = (Inl (Error r2), empty_world)" by blast
  from H h have v2: "verror (validatePDF huge_pdf) = Some ''File size exceeds 50MB limit''" by blast
  from T t have n1: "\<not> valid (validatePDF tiny_pdf)" by blast
  from H h have n2: "\<not> valid (validatePDF huge_pdf)" by blast
  from uploadDocument_invalid [OF n1, of calm "''structural-floor''" False empty_world] v1 r1
  have e1: "r1 = ''File is too small to be a valid PDF''" by (simp add: or_else_def)
  from uploadDocument_invalid [OF n2, of calm "''structural-floor''" False empty_world] v2 r2
  have e2: "r2 = ''File size exceeds 50MB limit''" by (simp add: or_else_def)
  from S s have vs: "valid (validatePDF sample_pdf)" by blast
  from B b have vb: "valid (validatePDF boundary_pdf)" by blast
  from t h r1 r2 e1 e2 vs vb show ?thesis by simp
qed

text \<open>
  C7.  The verdict depends on the content only through its first five bytes.  Every
  input whose bytes do not start with \<open>%PDF\<close> is invalid, and so is every input that
  cannot be read.  When the earlier rules (media type, size) pass, the verdict's reason
  is "File does not appear to be a valid PDF" for a readable file without the signature
  and "Failed to read file" for an unreadable one.
\<close>

theorem signature_rule:
  "validatePDF f = validatePDF (f\<lparr>file_bytes := take 5 (file_bytes f)\<rparr>)
   \<and> (\<not> startsWith (file_bytes f) ''%PDF'' \<longrightarrow> \<not> valid (validatePDF f))
   \<and> (\<not> file_readable f \<longrightarrow> \<not> valid (validatePDF f))
   \<and> (file_type f = ''application/pdf'' \<and> 1024 \<le> file_size f \<and> file_size f \<le> MAX_SIZE \<longrightarrow>
        (file_readable f \<and> \<not> startsWith (file_bytes f) ''%PDF'' \<longrightarrow>
           validatePDF f = \<lparr>valid = False, verror = Some ''File does not appear to be a valid PDF''\<rparr>)
        \<and> (\<not> file_readable f \<longrightarrow>
           validatePDF f = \<lparr>valid = False, verror = Some ''Failed to read file''\<rparr>))"
proof (intro conjI impI)
  show "validatePDF f = validatePDF (f\<lparr>file_bytes := take 5 (file_bytes f)\<rparr>)"
    by (simp add: validatePDF_def slice_bytes_def)
next
  assume "\<not> startsWith (file_bytes f) ''%PDF''"
  then show "\<not> valid (validatePDF f)" by (simp add: validatePDF_cases)
next
  assume "\<not> file_readable f"
  then show "\<not> valid (validatePDF f)" by (simp add: validatePDF_cases)
next
  assume "file_type f = ''application/pdf'' \<and> 1024 \<le> file_size f \<and> file_size f \<le> MAX_SIZE"
    and "file_readable f \<and> \<not> startsWith (file_bytes f) ''%PDF''"
  then show "validatePDF f = \<lparr>valid = False, verror = Some ''File does not appear to be a valid PDF''\<rparr>"
    by (simp add: validatePDF_cases)
next
  assume "file_type f = ''application/pdf'' \<and> 1024 \<le> file_size f \<and> file_size f \<le> MAX_SIZE"
    and "\<not> file_readable f"
  then show "validatePDF f = \<lparr>valid = False, verror = Some ''Failed to read file''\<rparr>"
    by (simp add: validatePDF_cases)
qed

theorem signature_rule_witness:
  "validatePDF unsigned_pdf = \<lparr>valid = False, verror = Some ''File does not appear to be a valid PDF''\<rparr>
   \<and> validatePDF unreadable_pdf = \<lparr>valid = False, verror = Some ''Failed to read file''\<rparr>
   \<and> validatePDF sample_pdf = validatePDF (sample_pdf\<lparr>file_bytes := ''%PDF-''\<rparr>)"
proof -
  have u: "file_type unsigned_pdf = ''application/pdf'' \<and> 1024 \<le> file_size unsigned_pdf
             \<and> file_size unsigned_pdf \<le> MAX_SIZE"
    "file_readable unsigned_pdf \<and> \<not> startsWith (file_bytes unsigned_pdf) ''%PDF''"
    by (simp_all add: unsigned_pdf_def MAX_SIZE_def startsWith_def)
  have r: "file_type unreadable_pdf = ''application/pdf'' \<and> 1024 \<le> file_size unreadable_pdf
             \<and> file_size unreadable_pdf \<le> MAX_SIZE"
    "\<not> file_readable unreadable_pdf"
    by (simp_all add: unreadable_pdf_def MAX_SIZE_def)
  have t: "take 5 (file_bytes sample_pdf) = ''%PDF-''"
    by (simp add: sample_pdf_def)
  from signature_rule [of unsigned_pdf] u
  have 1: "validatePDF unsigned_pdf = \<lparr>valid = False, verror = Some ''File does not appear to be a valid PDF''\<rparr>"
    by blast
  from signature_rule [of unreadable_pdf] r
  have 2: "validatePDF unreadable_pdf = \<lparr>valid = False, verror = Some ''Failed to read file''\<rparr>"
    by blast
  from signature_rule [of sample_pdf] t
  have 3: "validatePDF sample_pdf = validatePDF (sample_pdf\<lparr>file_bytes := ''%PDF-''\<rparr>)"
    by simp
  from 1 2 3 show ?thesis by simp
qed


section \<open>The classifier\<close>

text \<open>
  C5.  For every filename the classifier returns what the specification's table gives
  for the lower-cased name: the type of the first keyword group, in the order
  tds / technical data, esr / evaluation report, msds / safety data, leed,
  installation / install, warranty, acoustic / esl, spec / 3-part, with a keyword that
  occurs in it, and \<open>TDS\<close> when no group has one.
\<close>

theorem classifier_follows_table: "detectDocumentType fname = classify fname"
  by (simp add: detectDocumentType_def classify_def classification_rules_def Let_def)

theorem classifier_follows_table_witness:
  "detectDocumentType ''Install Spec.pdf'' = Installation
   \<and> detectDocumentType ''XYZ-TDS-2023.pdf'' = TDS
   \<and> detectDocumentType ''brochure.pdf'' = TDS
   \<and> detectDocumentType ''3-Part Guide.PDF'' = PartSpec"
proof -
  have "classify ''Install Spec.pdf'' = Installation" by code_simp
  moreover have "classify ''XYZ-TDS-2023.pdf'' = TDS" by code_simp
  moreover have "classify ''brochure.pdf'' = TDS" by code_simp
  moreover have "classify ''3-Part Guide.PDF'' = PartSpec" by code_simp
  ultimately show ?thesis by (simp only: classifier_follows_table simp_thms)
qed


section \<open>The upload\<close>

lemma db_insert_fails_iff:
  "fst (db_insert e r w) = Inl m \<longleftrightarrow>
     (insert_error e = Some m
      \<or> (insert_error e = None \<and> insert_id e \<in> set (map doc_id (documents w))
          \<and> m = ''duplicate key value violates unique constraint''))"
  by (auto simp: db_insert_def record_call_def Let_def split: option.splits)

lemma db_insert_Inl:
  "fst (db_insert e r w) = Inl m \<Longrightarrow> documents w' = documents w \<Longrightarrow>
   db_insert e r' w' = (Inl m, record_call (DbInsert r') w')"
  by (auto simp: db_insert_def record_call_def Let_def split: option.splits if_splits)

lemma db_insert_Inr:
  "db_insert e r w = (Inr d, w') \<Longrightarrow>
     insert_error e = None \<and> insert_id e \<notin> set (map doc_id (documents w))
     \<and> d = with_id r (insert_id e)
     \<and> w' = (record_call (DbInsert r) w)\<lparr>documents := d # documents w\<rparr>"
  by (auto simp: db_insert_def record_call_def Let_def split: option.splits if_splits)

lemma upload_success:
  assumes "uploadDocument e f productType onProgress w = (Inr d, w')"
  shows "valid (validatePDF f) \<and> upload_error e = None \<and> insert_error e = None
     \<and> insert_id e \<notin> set (map doc_id (documents w))
     \<and> d = with_id (build_document f productType (or_else (public_url e (storage_key e f)) []))
              (insert_id e)
     \<and> documents w' = d # documents w
     \<and> blobs w' = (blobs w)(storage_key e f \<mapsto> file_bytes f)"
  using assms
  by (auto simp: uploadDocument_def Let_def storage_upload_def storage_getPublicUrl_def
      report_def record_call_def db_insert_def storage_remove_def
      split: if_splits option.splits sum.splits prod.splits)



lemma detect_sample: "detectDocumentType ''XYZ-TDS-2023.pdf'' = TDS"
  by code_simp

lemma sample_pdf_valid: "valid (validatePDF sample_pdf)"
  by (simp add: validatePDF_def slice_bytes_def sample_pdf_def MAX_SIZE_def startsWith_def)

lemma build_sample:
  "build_document sample_pdf ''structural-floor'' u =
     \<lparr>doc_name = ''Technical Data Sheet'', description = ''TDS Document'',
      filename = ''XYZ-TDS-2023.pdf'', url = u, doc_size = 2048, doc_type = TDS,
      required = False, products = [''3/4-in (20mm)''], product_type = ''structural-floor''\<rparr>"
  by (simp add: build_document_def sample_pdf_def detect_sample extractDocumentName_def
      or_else_def Let_def)

lemma sample_key:
  "date_now e = ''1700000000000'' \<Longrightarrow> random_part e = ''k3j9x1q0z'' \<Longrightarrow>
   storage_key e sample_pdf = ''1700000000000-k3j9x1q0z-XYZ-TDS-2023.pdf''"
  by (simp add: storage_key_def sample_pdf_def)

lemma upload_calm:
  "uploadDocument calm sample_pdf ''structural-floor'' True empty_world
     = (Inr stored_doc, stocked_world)"
proof -
  have key: "storage_key calm sample_pdf = ''1700000000000-k3j9x1q0z-XYZ-TDS-2023.pdf''"
    by (rule sample_key) (simp_all add: calm_def)
  have env: "upload_error calm = None" "insert_error calm = None" "insert_id calm = ''doc-1''"
    "public_url calm k = Some (''https://cdn.example/documents/'' @ k)" for k
    by (simp_all add: calm_def)
  show ?thesis
    by (simp add: uploadDocument_def sample_pdf_valid Let_def storage_upload_def
        storage_getPublicUrl_def report_def record_call_def db_insert_def build_sample
        key env empty_world_def or_else_def with_id_def stored_doc_def stocked_world_def)
qed

text \<open>
  C1.  When the file is valid, the blob write succeeds and the metadata insert then
  fails with message \<open>m\<close> (an error reply, or an id the table already has), the upload
  issues \<open>remove\<close> for the very key it wrote, as its last call, and throws \<open>Error m\<close>, the
  insert's own failure, whatever the \<open>remove\<close> replies.  The table is unchanged; the blob
  is gone when the \<open>remove\<close> succeeds and stays behind when it fails.
\<close>

theorem compensating_delete:
  assumes "valid (validatePDF f)" and "upload_error e = None"
    and "fst (db_insert e r w) = Inl m"
  shows "fst (uploadDocument e f productType onProgress w) = Inl (Error m)
     \<and> calls (snd (uploadDocument e f productType onProgress w))
         = calls w @ [StorageUpload (storage_key e f)]
             @ (if onProgress then [Progress 50] else [])
             @ [StorageGetPublicUrl (storage_key e f),
                DbInsert (build_document f productType
                            (or_else (public_url e (storage_key e f)) [])),
                StorageRemove [storage_key e f]]
     \<and> documents (snd (uploadDocument e f productType onProgress w)) = documents w
     \<and> blobs (snd (uploadDocument e f productType onProgress w)) (storage_key e f)
         = (if remove_error e = None then None else Some (file_bytes f))"
proof -
  let ?key = "storage_key e f"
  let ?w1 = "(record_call (StorageUpload ?key) w)\<lparr>blobs := (blobs w)(?key \<mapsto> file_bytes f)\<rparr>"
  let ?w3 = "record_call (StorageGetPublicUrl ?key) (report onProgress 50 ?w1)"
  let ?row = "build_document f productType (or_else (public_url e ?key) [])"
  have up: "storage_upload e ?key f w = (None, ?w1)"
    using assms(2) by (simp add: storage_upload_def Let_def record_call_def)
  have docs: "documents ?w3 = documents w"
    by (simp add: record_call_def report_def)
  have ins: "db_insert e ?row ?w3 = (Inl m, record_call (DbInsert ?row) ?w3)"
    using assms(3) docs by (rule db_insert_Inl)
  have run: "uploadDocument e f productType onProgress w
      = (Inl (Error m), snd (storage_remove e [?key] (record_call (DbInsert ?row) ?w3)))"
    using assms(1) up ins
    by (simp add: uploadDocument_def Let_def storage_getPublicUrl_def split: prod.splits)
  show ?thesis
    unfolding run
    by (simp add: storage_remove_def Let_def record_call_def report_def split: option.splits)
qed

theorem compensating_delete_witness:
  "fst (uploadDocument failing_stores sample_pdf ''structural-floor'' False empty_world)
     = Inl (Error ''permission denied for table documents'')
   \<and> calls (snd (uploadDocument failing_stores sample_pdf ''structural-floor'' False empty_world))
     = [StorageUpload ''1700000000000-k3j9x1q0z-XYZ-TDS-2023.pdf'',
        StorageGetPublicUrl ''1700000000000-k3j9x1q0z-XYZ-TDS-2023.pdf'',
        DbInsert (build_document sample_pdf ''structural-floor''
          ''https://cdn.example/documents/1700000000000-k3j9x1q0z-XYZ-TDS-2023.pdf''),
        StorageRemove [''1700000000000-k3j9x1q0z-XYZ-TDS-2023.pdf'']]
   \<and> remove_error failing_stores = Some ''storage unavailable''"
proof -
  have up: "upload_error failing_stores = None"
    by (simp add: failing_stores_def calm_def)
  have ins: "fst (db_insert failing_stores r empty_world)
      = Inl ''permission denied for table documents''" for r
    by (simp add: db_insert_def failing_stores_def calm_def Let_def)
  have key: "storage_key failing_stores sample_pdf = ''1700000000000-k3j9x1q0z-XYZ-TDS-2023.pdf''"
    by (simp add: storage_key_def failing_stores_def calm_def sample_pdf_def)
  have loc: "public_url failing_stores ''1700000000000-k3j9x1q0z-XYZ-TDS-2023.pdf''
      = Some ''https://cdn.example/documents/1700000000000-k3j9x1q0z-XYZ-TDS-2023.pdf''"
    by (simp add: failing_stores_def calm_def)
  have rem: "remove_error failing_stores = Some ''storage unavailable''"
    by (simp add: failing_stores_def calm_def)
  from compensating_delete [where productType = "''structural-floor''" and onProgress = False,
      OF sample_pdf_valid up ins]
  show ?thesis
    by (simp add: key loc rem or_else_def empty_world_def)
qed

text \<open>
  C3, as the claim states it, fails when the blob store yields no public locator: the
  upload succeeds and the persisted record has the empty locator.
\<close>

theorem empty_locator_persisted:
  "fst (uploadDocument no_locator sample_pdf ''structural-floor'' False empty_world)
     = Inr unlocated_doc
   \<and> documents (snd (uploadDocument no_locator sample_pdf ''structural-floor'' False empty_world))
     = [unlocated_doc]
   \<and> url unlocated_doc = []"
  by (simp add: uploadDocument_def sample_pdf_valid Let_def storage_upload_def
      storage_getPublicUrl_def report_def record_call_def db_insert_def build_sample
      no_locator_def calm_def empty_world_def or_else_def with_id_def unlocated_doc_def)

text \<open>
  C3, amended.  The locator of a record persisted by the upload is the public locator
  the blob store yields for the written key, and the empty string when it yields none;
  so it is non-empty exactly when the blob store yields a non-empty locator.
\<close>

theorem locator_follows_public_url:
  assumes "uploadDocument e f productType onProgress w = (Inr d, w')"
  shows "url d = or_else (public_url e (storage_key e f)) []
     \<and> d \<in> set (documents w')
     \<and> (url d \<noteq> [] \<longleftrightarrow> (\<exists>u. public_url e (storage_key e f) = Some u \<and> u \<noteq> []))"
proof -
  from upload_success [OF assms]
  have d: "d = with_id (build_document f productType (or_else (public_url e (storage_key e f)) []))
              (insert_id e)"
    and w': "documents w' = d # documents w" by blast+
  from d have "url d = or_else (public_url e (storage_key e f)) []"
    by (simp add: with_id_def build_document_def Let_def)
  moreover from w' have "d \<in> set (documents w')" by simp
  ultimately show ?thesis
    by (auto simp: or_else_def split: option.splits)
qed

theorem locator_follows_public_url_witness:
  "url stored_doc = ''https://cdn.example/documents/1700000000000-k3j9x1q0z-XYZ-TDS-2023.pdf''
   \<and> stored_doc \<in> set (documents stocked_world)
   \<and> url stored_doc \<noteq> []"
proof -
  have key: "storage_key calm sample_pdf = ''1700000000000-k3j9x1q0z-XYZ-TDS-2023.pdf''"
    by (rule sample_key) (simp_all add: calm_def)
  have loc: "public_url calm k = Some (''https://cdn.example/documents/'' @ k)" for k
    by (simp add: calm_def)
  from locator_follows_public_url [OF upload_calm] show ?thesis
    by (simp add: key loc or_else_def)
qed

text \<open>
  C8.  After a successful upload, \<open>getDocument\<close> on the id of the returned record (when
  the lookup itself does not fail) finds that record, and its filename and size are
  those of the uploaded file and its type is the classification of the file's name.
\<close>

theorem upload_then_get:
  assumes "uploadDocument e f productType onProgress w = (Inr d, w')"
    and "select_error e' = None"
  shows "fst (getDocument e' (doc_id d) w') = Inr (Some d)
     \<and> filename d = file_name f
     \<and> doc_size d = file_size f
     \<and> doc_type d = detectDocumentType (file_name f)"
proof -
  from upload_success [OF assms(1)]
  have fresh: "insert_id e \<notin> set (map doc_id (documents w))"
    and d: "d = with_id (build_document f productType (or_else (public_url e (storage_key e f)) []))
              (insert_id e)"
    and w': "documents w' = d # documents w" by blast+
  from d have i: "doc_id d = insert_id e" by (simp add: with_id_def)
  from fresh have "filter (\<lambda>x. doc_id x = insert_id e) (documents w) = []"
    by (force simp: filter_empty_conv)
  with w' i have "filter (\<lambda>x. doc_id x = doc_id d) (documents w') = [d]" by simp
  then have "fst (getDocument e' (doc_id d) w') = Inr (Some d)"
    using assms(2)
    by (simp add: getDocument_def db_select_by_id_def Let_def record_call_def)
  moreover from d have "filename d = file_name f" "doc_size d = file_size f"
    "doc_type d = detectDocumentType (file_name f)"
    by (simp_all add: with_id_def build_document_def Let_def)
  ultimately show ?thesis by simp
qed


theorem upload_then_get_witness:
  "fst (getDocument calm ''doc-1'' stocked_world) = Inr (Some stored_doc)
   \<and> filename stored_doc = ''XYZ-TDS-2023.pdf''
   \<and> doc_size stored_doc = 2048
   \<and> doc_type stored_doc = TDS"
proof -
  have sel: "select_error calm = None" by (simp add: calm_def)
  have i: "doc_id stored_doc = ''doc-1''" by (simp add: stored_doc_def)
  have f: "file_name sample_pdf = ''XYZ-TDS-2023.pdf''" "file_size sample_pdf = 2048"
    by (simp_all add: sample_pdf_def)
  from upload_then_get [OF upload_calm sel] show ?thesis
    by (simp add: i f detect_sample)
qed

section \<open>Deleting a document\<close>

lemma getDocument_world: "snd (getDocument e i w) = record_call (DbSelectById i) w"
  by (simp add: getDocument_def db_select_by_id_def Let_def
      split: option.splits list.splits)

lemma getDocument_missing:
  "i \<notin> set (map doc_id (documents w)) \<Longrightarrow> select_error e = None \<Longrightarrow>
   getDocument e i w = (Inr None, record_call (DbSelectById i) w)"
proof -
  assume "i \<notin> set (map doc_id (documents w))" and e: "select_error e = None"
  then have "filter (\<lambda>d. doc_id d = i) (documents w) = []"
    by (force simp: filter_empty_conv)
  with e show ?thesis
    by (simp add: getDocument_def db_select_by_id_def Let_def record_call_def)
qed

text \<open>
  C6, as the claim states it, fails: deleting an id that the table does not hold throws
  an \<open>Error\<close>, with the message "Document not found".
\<close>

theorem delete_missing_is_error:
  "deleteDocument calm ''no-such-id'' empty_world
     = (Inl (Error ''Document not found''),
        \<lparr>blobs = Map.empty, documents = [], calls = [DbSelectById ''no-such-id'']\<rparr>)"
  by (simp add: deleteDocument_def getDocument_def db_select_by_id_def Let_def
      record_call_def calm_def empty_world_def)

text \<open>
  C6, amended.  For an id that the table does not hold (the lookup itself not failing),
  \<open>getDocument\<close> resolves to \<open>null\<close>, which is not an error, but \<open>deleteDocument\<close> signals
  the absence as an error: it throws \<open>Error\<close> with the message "Document not found", after
  the lookup and nothing else, and leaves both stores as they were.
\<close>

theorem delete_missing_throws:
  assumes "i \<notin> set (map doc_id (documents w))" and "select_error e = None"
  shows "getDocument e i w = (Inr None, record_call (DbSelectById i) w)
     \<and> deleteDocument e i w = (Inl (Error ''Document not found''), record_call (DbSelectById i) w)
     \<and> blobs (snd (deleteDocument e i w)) = blobs w
     \<and> documents (snd (deleteDocument e i w)) = documents w"
proof -
  from assms have g: "getDocument e i w = (Inr None, record_call (DbSelectById i) w)"
    by (rule getDocument_missing)
  then have "deleteDocument e i w = (Inl (Error ''Document not found''), record_call (DbSelectById i) w)"
    by (simp add: deleteDocument_def)
  with g show ?thesis by (simp add: record_call_def)
qed

theorem delete_missing_throws_witness:
  "getDocument calm ''doc-9'' stocked_world
     = (Inr None, record_call (DbSelectById ''doc-9'') stocked_world)
   \<and> deleteDocument calm ''doc-9'' stocked_world
     = (Inl (Error ''Document not found''), record_call (DbSelectById ''doc-9'') stocked_world)
   \<and> documents (snd (deleteDocument calm ''doc-9'' stocked_world)) = [stored_doc]"
proof -
  have a: "''doc-9'' \<notin> set (map doc_id (documents stocked_world))"
    by (simp add: stocked_world_def stored_doc_def)
  have b: "select_error calm = None" by (simp add: calm_def)
  have c: "documents stocked_world = [stored_doc]"
    by (simp add: stocked_world_def)
  from delete_missing_throws [OF a b] c show ?thesis
    by (simp add: record_call_def)
qed

lemma get_stored: "fst (getDocument calm ''doc-1'' stocked_world) = Inr (Some stored_doc)"
  by (simp add: getDocument_def db_select_by_id_def Let_def record_call_def calm_def
      stocked_world_def stored_doc_def)

lemma get_folder: "fst (getDocument calm ''doc-2'' folder_world) = Inr (Some folder_doc)"
  by (simp add: getDocument_def db_select_by_id_def Let_def record_call_def calm_def
      folder_world_def folder_doc_def stored_doc_def)

text \<open>
  C10.  When the lookup finds a document with a non-empty url and the row is deleted,
  \<open>deleteDocument\<close> resolves, and the key of its best-effort blob removal is the part of
  the url after its last \<open>/\<close> (the record holds no storage key): the calls are the
  lookup, the delete of the row, and then \<open>remove\<close> of that one key, or no \<open>remove\<close> at all
  when that part is empty.
\<close>

theorem delete_key_from_url:
  assumes "fst (getDocument e i w) = Inr (Some doc)" and "delete_error e = None"
    and "url doc \<noteq> []"
  shows "fst (deleteDocument e i w) = Inr ()
     \<and> calls (snd (deleteDocument e i w))
         = calls w @ [DbSelectById i, DbDelete i]
             @ (if after_last (CHR ''/'') (url doc) = [] then []
                else [StorageRemove [after_last (CHR ''/'') (url doc)]])"
proof -
  let ?w1 = "record_call (DbSelectById i) w"
  have g: "getDocument e i w = (Inr (Some doc), ?w1)"
    using assms(1) getDocument_world [of e i w] by (cases "getDocument e i w") simp
  have d: "db_delete e i ?w1
      = (None, (record_call (DbDelete i) ?w1)
                 \<lparr>documents := filter (\<lambda>d. doc_id d \<noteq> i) (documents ?w1)\<rparr>)"
    using assms(2) by (simp add: db_delete_def Let_def record_call_def)
  let ?w2 = "(record_call (DbDelete i) ?w1)
                 \<lparr>documents := filter (\<lambda>d. doc_id d \<noteq> i) (documents ?w1)\<rparr>"
  let ?seg = "after_last (CHR ''/'') (url doc)"
  have run: "deleteDocument e i w
      = (if ?seg = [] then (Inr (), ?w2) else (Inr (), snd (storage_remove e [?seg] ?w2)))"
    using assms(3)
    by (simp add: deleteDocument_def g d truthy_def js_pop_split split: prod.splits)
  show ?thesis
    unfolding run
    by (simp add: storage_remove_def Let_def record_call_def split: option.splits)
qed


theorem delete_key_from_url_witness:
  "fst (deleteDocument calm ''doc-1'' stocked_world) = Inr ()
   \<and> calls (snd (deleteDocument calm ''doc-1'' stocked_world))
       = calls stocked_world
           @ [DbSelectById ''doc-1'', DbDelete ''doc-1'',
              StorageRemove [''1700000000000-k3j9x1q0z-XYZ-TDS-2023.pdf'']]
   \<and> fst (deleteDocument calm ''doc-2'' folder_world) = Inr ()
   \<and> calls (snd (deleteDocument calm ''doc-2'' folder_world))
       = [DbSelectById ''doc-2'', DbDelete ''doc-2'']"
proof -
  have del: "delete_error calm = None" by (simp add: calm_def)
  have u1: "url stored_doc \<noteq> []" by (simp add: stored_doc_def)
  have u2: "url folder_doc \<noteq> []" by (simp add: folder_doc_def stored_doc_def)
  have s1: "after_last (CHR ''/'') (url stored_doc) = ''1700000000000-k3j9x1q0z-XYZ-TDS-2023.pdf''"
    by (simp add: after_last_def stored_doc_def)
  have s2: "after_last (CHR ''/'') (url folder_doc) = []"
    by (simp add: after_last_def folder_doc_def stored_doc_def)
  have c: "calls folder_world = []" by (simp add: folder_world_def)
  from delete_key_from_url [OF get_stored del u1] delete_key_from_url [OF get_folder del u2]
  show ?thesis by (simp add: s1 s2 c)
qed


section \<open>The batch export\<close>

lemma export_step:
  "export_loop e (d # ds) rs w =
     (if truthy (url d) then
        export_loop e ds
          (if item_fails e d then rs else rs @ [(d, payload e d)])
          (record_call (Fetch (url d)) w)
      else export_loop e ds rs w)"
  by (simp add: item_fails_def payload_def Let_def split: fetch_result.splits option.splits)

lemma export_loop_results:
  "fst (export_loop e ds rs w)
     = rs @ map (\<lambda>d. (d, payload e d)) (filter (\<lambda>d. truthy (url d) \<and> \<not> item_fails e d) ds)"
proof (induction ds arbitrary: rs w)
  case Nil
  then show ?case by simp
next
  case (Cons d ds)
  show ?case
    unfolding export_step by (simp add: Cons.IH)
qed

lemma export_loop_world:
  "snd (export_loop e ds rs w)
     = w\<lparr>calls := calls w @ map (\<lambda>d. Fetch (url d)) (filter (\<lambda>d. truthy (url d)) ds)\<rparr>"
proof (induction ds arbitrary: rs w)
  case Nil
  then show ?case by simp
next
  case (Cons d ds)
  show ?case
    unfolding export_step by (simp add: Cons.IH record_call_def)
qed

lemma filter_split_length:
  "length (filter (\<lambda>d. P d \<and> \<not> Q d) xs) + length (filter (\<lambda>d. P d \<and> Q d) xs)
     = length (filter P xs)"
  by (induction xs) auto


text \<open>
  C4, as the claim states it, fails when a stored document has no locator: of two stored
  documents, one without a locator and one whose fetch is rejected, exactly one fetch is
  made and fails, and the export returns no entry, not one.
\<close>

theorem export_short_of_all_but_one:
  "length (documents mixed_world) = 2
   \<and> calls (snd (getAllDocumentsWithData offline mixed_world))
       = [DbSelectAll,
          Fetch ''https://cdn.example/documents/1700000000000-k3j9x1q0z-XYZ-TDS-2023.pdf'']
   \<and> fetch offline ''https://cdn.example/documents/1700000000000-k3j9x1q0z-XYZ-TDS-2023.pdf''
       = FetchRejected ''Failed to fetch''
   \<and> fst (getAllDocumentsWithData offline mixed_world) = Inr []"
proof -
  have sel: "select_error offline = None" by (simp add: offline_def calm_def)
  have d: "documents mixed_world = [draft_doc, stored_doc]"
    "calls mixed_world = []"
    by (simp_all add: mixed_world_def)
  have u: "url draft_doc = []"
    "url stored_doc = ''https://cdn.example/documents/1700000000000-k3j9x1q0z-XYZ-TDS-2023.pdf''"
    by (simp_all add: draft_doc_def stored_doc_def)
  have f: "fetch offline x = FetchRejected ''Failed to fetch''" for x
    by (simp add: offline_def calm_def)
  have list: "getAllDocuments offline mixed_world
      = (Inr (documents mixed_world), record_call DbSelectAll mixed_world)"
    using sel by (simp add: getAllDocuments_def db_select_all_def Let_def record_call_def)
  show ?thesis
    using u
    by (simp add: getAllDocumentsWithData_def list d f record_call_def Let_def truthy_def
        split: prod.splits)
qed


text \<open>
  C4, amended.  When the listing succeeds and exactly one of the documents that have a
  locator fails (its fetch is rejected, its response is not \<open>ok\<close>, or its body cannot be
  read), the export resolves, with one entry, document and payload, for each other
  document that has a locator, in the order of the list: one entry fewer than there are
  documents with a locator, hence N - 1 entries when all N documents have one.  A fetch
  is made for the documents with a locator and for no other, and neither store
  changes.
\<close>

theorem export_omits_failed_and_unlocated:
  assumes "select_error e = None"
    and "length (filter (\<lambda>d. truthy (url d) \<and> item_fails e d) (documents w)) = 1"
  shows "fst (getAllDocumentsWithData e w)
       = Inr (map (\<lambda>d. (d, payload e d))
               (filter (\<lambda>d. truthy (url d) \<and> \<not> item_fails e d) (documents w)))
     \<and> length (filter (\<lambda>d. truthy (url d) \<and> \<not> item_fails e d) (documents w)) + 1
       = length (filter (\<lambda>d. truthy (url d)) (documents w))
     \<and> (list_all (\<lambda>d. truthy (url d)) (documents w) \<longrightarrow>
          length (filter (\<lambda>d. truthy (url d) \<and> \<not> item_fails e d) (documents w)) + 1
            = length (documents w))
     \<and> calls (snd (getAllDocumentsWithData e w))
       = calls w @ DbSelectAll # map (\<lambda>d. Fetch (url d)) (filter (\<lambda>d. truthy (url d)) (documents w))
     \<and> blobs (snd (getAllDocumentsWithData e w)) = blobs w
     \<and> documents (snd (getAllDocumentsWithData e w)) = documents w"
proof -
  let ?w1 = "record_call DbSelectAll w"
  have list: "getAllDocuments e w = (Inr (documents w), ?w1)"
    using assms(1)
    by (simp add: getAllDocuments_def db_select_all_def Let_def record_call_def)
  have run: "getAllDocumentsWithData e w
      = (Inr (fst (export_loop e (documents w) [] ?w1)), snd (export_loop e (documents w) [] ?w1))"
    by (simp add: getAllDocumentsWithData_def list split: prod.splits)
  have count: "length (filter (\<lambda>d. truthy (url d) \<and> \<not> item_fails e d) (documents w)) + 1
       = length (filter (\<lambda>d. truthy (url d)) (documents w))"
    using filter_split_length [of "\<lambda>d. truthy (url d)" "item_fails e" "documents w"] assms(2)
    by simp
  have res: "fst (export_loop e (documents w) [] ?w1)
      = map (\<lambda>d. (d, payload e d))
               (filter (\<lambda>d. truthy (url d) \<and> \<not> item_fails e d) (documents w))"
    by (simp add: export_loop_results)
  have c: "calls (snd (getAllDocumentsWithData e w))
       = calls w @ DbSelectAll # map (\<lambda>d. Fetch (url d)) (filter (\<lambda>d. truthy (url d)) (documents w))"
    by (simp add: run export_loop_world record_call_def)
  have b: "blobs (snd (getAllDocumentsWithData e w)) = blobs w"
    "documents (snd (getAllDocumentsWithData e w)) = documents w"
    by (simp_all add: run export_loop_world record_call_def)
  from run res have r: "fst (getAllDocumentsWithData e w)
       = Inr (map (\<lambda>d. (d, payload e d))
               (filter (\<lambda>d. truthy (url d) \<and> \<not> item_fails e d) (documents w)))"
    by simp
  have full: "list_all (\<lambda>d. truthy (url d)) (documents w) \<longrightarrow>
          length (filter (\<lambda>d. truthy (url d) \<and> \<not> item_fails e d) (documents w)) + 1
            = length (documents w)"
  proof
    assume "list_all (\<lambda>d. truthy (url d)) (documents w)"
    then have "filter (\<lambda>d. truthy (url d)) (documents w) = documents w"
      by (simp add: list_all_iff)
    with count show "length (filter (\<lambda>d. truthy (url d) \<and> \<not> item_fails e d) (documents w)) + 1
            = length (documents w)" by simp
  qed
  from r count full c b show ?thesis by blast
qed


theorem export_omits_failed_and_unlocated_witness:
  "fst (getAllDocumentsWithData flaky pair_world) = Inr [(stored_doc, Some ''JVBERi0xLjQ='')]
   \<and> length (documents pair_world) = 2
   \<and> calls (snd (getAllDocumentsWithData flaky pair_world))
       = [DbSelectAll, Fetch ''https://cdn.example/documents/'',
          Fetch ''https://cdn.example/documents/1700000000000-k3j9x1q0z-XYZ-TDS-2023.pdf'']"
proof -
  have sel: "select_error flaky = None" by (simp add: flaky_def calm_def)
  have u: "url folder_doc = ''https://cdn.example/documents/''"
    "url stored_doc = ''https://cdn.example/documents/1700000000000-k3j9x1q0z-XYZ-TDS-2023.pdf''"
    by (simp_all add: folder_doc_def stored_doc_def)
  have f1: "item_fails flaky folder_doc"
    by (simp add: item_fails_def flaky_def calm_def u)
  have f2: "\<not> item_fails flaky stored_doc"
    by (simp add: item_fails_def flaky_def calm_def u)
  have sp: "js_split (CHR '','') ''data:application/pdf;base64,JVBERi0xLjQ=''
      = [''data:application/pdf;base64'', ''JVBERi0xLjQ='']"
    by simp
  have p: "payload flaky stored_doc = Some ''JVBERi0xLjQ=''"
    by (simp add: payload_def flaky_def calm_def u sp js_index_def)
  have d: "documents pair_world = [folder_doc, stored_doc]" "calls pair_world = []"
    by (simp_all add: pair_world_def)
  have one: "length (filter (\<lambda>d. truthy (url d) \<and> item_fails flaky d) (documents pair_world)) = 1"
    by (simp add: d f1 f2 u truthy_def)
  from export_omits_failed_and_unlocated [OF sel one] show ?thesis
    by (simp add: d f1 f2 u p truthy_def)
qed

end
